theory Spec2Isabelle
  imports
    Main
    "HOL-Library.Char_ord"
    "HOL-Library.List_Lexorder"
    "HOL-Library.AList"
    "HOL-Library.Log_Nat"
begin


section \<open>Python strings\<close>

text \<open>
  A Python \<open>str\<close> is modelled as a \<^typ>\<open>string\<close>. The helpers below are the methods of
  \<open>str\<close> that the two source files call, on ASCII text: \<open>lower\<close>, \<open>upper\<close>, \<open>strip\<close>,
  \<open>isdigit\<close> and the first field of \<open>split(",")\<close>. Characters outside ASCII are left as
  they are by \<open>lower\<close> and \<open>upper\<close>.
\<close>

definition ascii_uppercase :: string where
  "ascii_uppercase = ''ABCDEFGHIJKLMNOPQRSTUVWXYZ''"

definition ascii_lowercase :: string where
  "ascii_lowercase = ''abcdefghijklmnopqrstuvwxyz''"


definition lower_char :: "char \<Rightarrow> char" where
  "lower_char c = (case map_of (zip ascii_uppercase ascii_lowercase) c of None \<Rightarrow> c | Some d \<Rightarrow> d)"

definition upper_char :: "char \<Rightarrow> char" where
  "upper_char c = (case map_of (zip ascii_lowercase ascii_uppercase) c of None \<Rightarrow> c | Some d \<Rightarrow> d)"

definition lower :: "string \<Rightarrow> string" where
  "lower s = map lower_char s"

definition upper :: "string \<Rightarrow> string" where
  "upper s = map upper_char s"

definition isspace :: "char \<Rightarrow> bool" where
  \<comment> \<open>space, the controls \<open>\t \n \v \f \r\<close> and the separators \<open>0x1c .. 0x1f\<close>\<close>
  "isspace c \<longleftrightarrow>
     c \<in> set [CHR 0x20, CHR 0x09, CHR 0x0A, CHR 0x0B, CHR 0x0C, CHR 0x0D,
                CHR 0x1C, CHR 0x1D, CHR 0x1E, CHR 0x1F]"

definition strip :: "string \<Rightarrow> string" where
  "strip s = rev (dropWhile isspace (rev (dropWhile isspace s)))"


definition split_comma_first :: "string \<Rightarrow> string" where
  \<comment> \<open>\<open>s.split(",")[0]\<close>: the text before the first comma\<close>
  "split_comma_first s = takeWhile (\<lambda>c. c \<noteq> CHR '','') s"


section \<open>The payment webhook (\<open>app/bot/payment_gateways/yookassa.py\<close>)\<close>

subsection \<open>Data\<close>

text \<open>
  An exception is a value: the name of its class. The event types are the two the
  handler dispatches on, and every other member of the SDK's enumeration.
\<close>

datatype exc = Exc string

datatype WebhookNotificationEventType =
    PAYMENT_SUCCEEDED
  | PAYMENT_CANCELED
  | OTHER_EVENT string

text \<open>
  The notification the SDK's factory builds from the request body: its event, and the id
  of the object it refers to (\<open>None\<close> when the id is absent).
\<close>

record Notification =
  event :: WebhookNotificationEventType
  object_id :: "string option"

text \<open>
  What the handler reads of a request: the outcome of \<open>await request.json()\<close> followed by
  \<open>WebhookNotificationFactory().create\<close> (either may raise), the header
  \<open>X-Forwarded-For\<close> and the peer address \<open>request.remote\<close>.
\<close>

record Request =
  notification :: "exc + Notification"
  x_forwarded_for_header :: "string option"
  remote :: "string option"

text \<open>The payment the provider's lookup returns: its status and its \<open>paid\<close> attribute.\<close>

record Payment =
  status :: string
  paid :: "bool option"

text \<open>
  The collaborators the handler calls, over a state \<open>'st\<close> of the transaction store that
  only the status updates change. Each one may raise:
  \<^item> \<open>is_ip_trusted\<close> is \<open>SecurityHelper().is_ip_trusted\<close>, which parses its argument as an
    address;
  \<^item> \<open>find_one\<close> is \<open>Payment.find_one\<close>, the provider's lookup;
  \<^item> \<open>on_payment_succeeded\<close> and \<open>on_payment_canceled\<close> are the status updates of the
    gateway's base class; they return the exception they raised, if any, and the store
    they leave.
\<close>

record 'st Services =
  is_ip_trusted :: "string \<Rightarrow> exc + bool"
  find_one :: "string \<Rightarrow> exc + Payment"
  on_payment_succeeded :: "string \<Rightarrow> 'st \<Rightarrow> exc option \<times> 'st"
  on_payment_canceled :: "string \<Rightarrow> 'st \<Rightarrow> exc option \<times> 'st"

text \<open>
  The calls a run of the handler makes, in order: the remote lookup and the two status
  updates, each with the payment id it was given.
\<close>

datatype call =
    FindOne string
  | HandlePaymentSucceeded string
  | HandlePaymentCanceled string

definition is_update :: "call \<Rightarrow> bool" where
  "is_update c = (case c of FindOne _ \<Rightarrow> False | _ \<Rightarrow> True)"

subsection \<open>Operations\<close>

definition handle_payment_succeeded :: "'st Services \<Rightarrow> string \<Rightarrow> 'st \<Rightarrow> exc option \<times> 'st" where
  "handle_payment_succeeded sv payment_id st = on_payment_succeeded sv payment_id st"

definition handle_payment_canceled :: "'st Services \<Rightarrow> string \<Rightarrow> 'st \<Rightarrow> exc option \<times> 'st" where
  "handle_payment_canceled sv payment_id st = on_payment_canceled sv payment_id st"

definition extract_source_ip :: "Request \<Rightarrow> string \<times> string \<times> string" where
  "extract_source_ip request =
     (let x_forwarded_for = (case x_forwarded_for_header request of None \<Rightarrow> [] | Some v \<Rightarrow> v);
          remote_ip = (case remote request of None \<Rightarrow> [] | Some v \<Rightarrow> v);
          ip = (if x_forwarded_for \<noteq> [] then strip (split_comma_first x_forwarded_for)
                else remote_ip)
      in (ip, x_forwarded_for, remote_ip))"

definition normalize_status :: "string \<Rightarrow> string" where
  "normalize_status v = lower v"

definition is_event_confirmed_by_api ::
  "'st Services \<Rightarrow> string \<Rightarrow> WebhookNotificationEventType \<Rightarrow> bool" where
  "is_event_confirmed_by_api sv payment_id ev =
     (case find_one sv payment_id of
        Inl exception \<Rightarrow> False
      | Inr payment \<Rightarrow>
          (let st = normalize_status (status payment);
               pd = (paid payment = Some True)
           in case ev of
                PAYMENT_SUCCEEDED \<Rightarrow> st = ''succeeded'' \<and> pd
              | PAYMENT_CANCELED \<Rightarrow> st = ''canceled''
              | OTHER_EVENT _ \<Rightarrow> False))"

text \<open>
  The handler returns the HTTP status of its response, the calls it made and the store
  it leaves. Every exception raised inside its \<open>try\<close> block ends in the response 400.
\<close>

definition dispatch ::
  "'st Services \<Rightarrow> WebhookNotificationEventType \<Rightarrow> string \<Rightarrow> 'st \<Rightarrow> nat \<times> call list \<times> 'st" where
  "dispatch sv ev payment_id st =
     (case ev of
        PAYMENT_SUCCEEDED \<Rightarrow>
          (case handle_payment_succeeded sv payment_id st of
             (None, st') \<Rightarrow> (200, [HandlePaymentSucceeded payment_id], st')
           | (Some exception, st') \<Rightarrow> (400, [HandlePaymentSucceeded payment_id], st'))
      | PAYMENT_CANCELED \<Rightarrow>
          (case handle_payment_canceled sv payment_id st of
             (None, st') \<Rightarrow> (200, [HandlePaymentCanceled payment_id], st')
           | (Some exception, st') \<Rightarrow> (400, [HandlePaymentCanceled payment_id], st'))
      | OTHER_EVENT _ \<Rightarrow> (400, [], st))"

definition source_ip_trusted :: "'st Services \<Rightarrow> Request \<Rightarrow> exc + bool" where
  \<comment> \<open>\<open>bool(source_ip) and SecurityHelper().is_ip_trusted(source_ip)\<close>\<close>
  "source_ip_trusted sv request =
     (case extract_source_ip request of
        (source_ip, x_forwarded_for, remote_ip) \<Rightarrow>
          if source_ip = [] then Inr False else is_ip_trusted sv source_ip)"

definition webhook_handler :: "'st Services \<Rightarrow> Request \<Rightarrow> 'st \<Rightarrow> nat \<times> call list \<times> 'st" where
  "webhook_handler sv request st =
     (case notification request of
        Inl exception \<Rightarrow> (400, [], st)
      | Inr notification_object \<Rightarrow>
          (case object_id notification_object of
             None \<Rightarrow> (400, [], st)
           | Some payment_id \<Rightarrow>
               if payment_id = [] then (400, [], st)
               else
                 (case source_ip_trusted sv request of
                    Inl exception \<Rightarrow> (400, [], st)
                  | Inr trusted \<Rightarrow>
                      if \<not> is_event_confirmed_by_api sv payment_id (event notification_object)
                      then (403, [FindOne payment_id], st)
                      else
                        (case dispatch sv (event notification_object) payment_id st of
                           (code, calls, st') \<Rightarrow> (code, FindOne payment_id # calls, st')))))"

subsection \<open>A provider, a store and requests to run the handler on\<close>

text \<open>
  The store is a counter of the status updates applied. The provider knows four
  payments; the status update of \<open>pay-orphan\<close> raises (the store has no transaction for
  it), and the address check raises on text that is not an address.
\<close>

definition example_services :: "nat Services" where
  "example_services =
     \<lparr> is_ip_trusted =
         (\<lambda>ip. if ip = ''not-an-address'' then Inl (Exc ''AddrFormatError'')
               else Inr (ip = ''185.71.76.1'')),
       find_one =
         (\<lambda>pid. if pid = ''pay-ok'' then Inr \<lparr>status = ''succeeded'', paid = Some True\<rparr>
                else if pid = ''pay-cancel'' then Inr \<lparr>status = ''canceled'', paid = Some False\<rparr>
                else if pid = ''pay-pending'' then Inr \<lparr>status = ''pending'', paid = Some False\<rparr>
                else if pid = ''pay-orphan'' then Inr \<lparr>status = ''succeeded'', paid = Some True\<rparr>
                else Inl (Exc ''NotFoundError'')),
       on_payment_succeeded =
         (\<lambda>pid n. if pid = ''pay-orphan'' then (Some (Exc ''AttributeError''), n)
                  else (None, Suc n)),
       on_payment_canceled = (\<lambda>pid n. (None, Suc n)) \<rparr>"

definition example_request :: "WebhookNotificationEventType \<Rightarrow> string option \<Rightarrow> Request" where
  "example_request ev pid =
     \<lparr> notification = Inr \<lparr>event = ev, object_id = pid\<rparr>,
       x_forwarded_for_header = Some ''185.71.76.1, 10.0.0.2'',
       remote = Some ''10.0.0.2'' \<rparr>"


section \<open>The promocode generator (\<open>scripts/generate_legacy_promocodes.py\<close>)\<close>

subsection \<open>Python's true division of integers and \<open>math.ceil\<close>\<close>






subsection \<open>Remaining days\<close>



subsection \<open>Collecting the legacy clients\<close>












subsection \<open>Generating the codes\<close>











subsection \<open>The report, the inserts and \<open>main\<close>\<close>








subsection \<open>A source database, a target database and a random source to run the script on\<close>







subsection \<open>The candidates of a collection\<close>





subsection \<open>The attempts of \<open>generate_code\<close>\<close>







section \<open>Properties of the webhook handler\<close>

lemmas example_webhook_defs =
  example_services_def example_request_def webhook_handler_def source_ip_trusted_def
  extract_source_ip_def split_comma_first_def strip_def isspace_def
  is_event_confirmed_by_api_def normalize_status_def lower_def lower_char_def
  ascii_uppercase_def ascii_lowercase_def dispatch_def handle_payment_succeeded_def
  handle_payment_canceled_def


lemma dispatch_calls:
  "dispatch sv ev payment_id st = (code, calls, st') \<Longrightarrow> FindOne q \<notin> set calls"
  by (auto simp: dispatch_def split: WebhookNotificationEventType.splits prod.splits option.splits)

text \<open>
  A run whose calls include the lookup of a payment id got past the parsing of the body,
  the check of the id and the address check; it then answers 403 when the confirmation
  fails and dispatches on the event when it holds.
\<close>

lemma webhook_handler_lookup:
  assumes "webhook_handler sv request st = (code, calls, st')"
    and "FindOne payment_id \<in> set calls"
  obtains n where "notification request = Inr n" and "object_id n = Some payment_id"
    and "payment_id \<noteq> []"
    and "\<not> is_event_confirmed_by_api sv payment_id (event n) \<Longrightarrow>
           code = 403 \<and> calls = [FindOne payment_id] \<and> st' = st"
    and "is_event_confirmed_by_api sv payment_id (event n) \<Longrightarrow>
           \<exists>cs. dispatch sv (event n) payment_id st = (code, cs, st') \<and> calls = FindOne payment_id # cs"
  using assms unfolding webhook_handler_def
  by (auto split: sum.splits option.splits if_splits prod.splits dest: dispatch_calls)

text \<open>
  The lookup is made exactly when the body parses, carries a payment id and the address
  check returns: a request that is answered before that point makes no call at all.
\<close>

lemma webhook_handler_reaches_lookup:
  assumes "notification request = Inr n" and "object_id n = Some payment_id"
    and "payment_id \<noteq> []" and "source_ip_trusted sv request = Inr t"
  shows "FindOne payment_id \<in> set (fst (snd (webhook_handler sv request st)))"
  using assms by (auto simp: webhook_handler_def split: prod.splits)

lemma webhook_handler_address_check_raises:
  assumes "source_ip_trusted sv request = Inl e"
  shows "webhook_handler sv request st = (400, [], st)"
  using assms by (auto simp: webhook_handler_def split: sum.splits option.splits)

text \<open>
  C4. A request whose parsed notification has no payment id, or an empty one, is answered
  with 400; the handler makes no call (no remote lookup, no status update) and leaves the
  store as it was.
\<close>

theorem webhook_missing_payment_id:
  assumes "notification request = Inr n"
    and "object_id n = None \<or> object_id n = Some []"
  shows "webhook_handler sv request st = (400, [], st)"
  using assms by (auto simp: webhook_handler_def)

theorem webhook_missing_payment_id_witness:
  "webhook_handler example_services (example_request PAYMENT_SUCCEEDED None) 7 = (400, [], 7)
   \<and> webhook_handler example_services (example_request PAYMENT_CANCELED (Some [])) 7 = (400, [], 7)"
  using webhook_missing_payment_id
          [of "example_request PAYMENT_SUCCEEDED None"
              "\<lparr>event = PAYMENT_SUCCEEDED, object_id = None\<rparr>" example_services 7]
        webhook_missing_payment_id
          [of "example_request PAYMENT_CANCELED (Some [])"
              "\<lparr>event = PAYMENT_CANCELED, object_id = Some []\<rparr>" example_services 7]
  by (simp add: example_request_def)



text \<open>
  C3. When the remote lookup itself raises, the event counts as unconfirmed:
  \<open>is_event_confirmed_by_api\<close> returns false for every event, and a run of the handler that
  made this lookup answers 403, makes no other call and leaves the store unchanged.
\<close>

theorem webhook_lookup_raises_fails_closed:
  assumes "find_one sv payment_id = Inl exception"
    and "webhook_handler sv request st = (code, calls, st')"
    and "FindOne payment_id \<in> set calls"
  shows "\<not> is_event_confirmed_by_api sv payment_id ev
         \<and> code = 403 \<and> calls = [FindOne payment_id] \<and> filter is_update calls = [] \<and> st' = st"
proof -
  have never: "\<not> is_event_confirmed_by_api sv payment_id e" for e
    using assms(1) by (simp add: is_event_confirmed_by_api_def)
  show ?thesis
  proof (rule webhook_handler_lookup [OF assms(2,3)])
    fix m
    assume "\<not> is_event_confirmed_by_api sv payment_id (event m) \<Longrightarrow>
              code = 403 \<and> calls = [FindOne payment_id] \<and> st' = st"
    with never show ?thesis by (simp add: is_update_def)
  qed
qed

theorem webhook_lookup_raises_fails_closed_witness:
  "find_one example_services ''pay-unknown'' = Inl (Exc ''NotFoundError'')
   \<and> \<not> is_event_confirmed_by_api example_services ''pay-unknown'' PAYMENT_SUCCEEDED
   \<and> webhook_handler example_services (example_request PAYMENT_SUCCEEDED (Some ''pay-unknown'')) 7
       = (403, [FindOne ''pay-unknown''], 7)"
proof -
  let ?r = "webhook_handler example_services (example_request PAYMENT_SUCCEEDED (Some ''pay-unknown'')) 7"
  have raises: "find_one example_services ''pay-unknown'' = Inl (Exc ''NotFoundError'')"
    by (simp add: example_services_def)
  have run: "?r = (fst ?r, fst (snd ?r), snd (snd ?r))" by simp
  have reached: "FindOne ''pay-unknown'' \<in> set (fst (snd ?r))"
    by (simp add: example_webhook_defs)
  from webhook_lookup_raises_fails_closed [OF raises run reached, of PAYMENT_SUCCEEDED] raises
  show ?thesis by (metis prod.collapse)
qed





section \<open>Properties of the promocode generator\<close>

subsection \<open>True division and its ceiling\<close>








subsection \<open>Remaining days\<close>







subsection \<open>Unlimited clients\<close>





subsection \<open>One entry per email\<close>

















subsection \<open>The loop of \<open>generate_code\<close>\<close>








lemma length_upper [simp]: "length (upper s) = length s"
  by (simp add: upper_def)






subsection \<open>The codes of one run\<close>








subsection \<open>When \<open>generate_code\<close> returns\<close>






subsection \<open>Dry runs\<close>





end
